theory Spec2Isabelle
  imports Main "HOL-Library.Multiset" "HOL-Library.Product_Lexorder"
begin

section \<open>Python errors as values\<close>

text \<open>
  Every exception the modelled code can raise is a constructor of \<open>py_error\<close>; a function
  that can raise returns \<open>py_error + 'a\<close>, with \<open>Inl\<close> for the exception.
\<close>

datatype py_error =
    NameError string
  | TypeError
  | ValueError
  | IndexError
  | KeyError string
  | AssertionError
  | AttributeError

section \<open>mmcls/datasets/pipelines/processing.py: RandomCrop\<close>

text \<open>
  \<open>np.random.randint(low, high)\<close> draws from the half-open interval \<open>[low, high)\<close> and
  raises ValueError when the interval is empty. The draw is the parameter \<open>rnd\<close>: every
  value of the interval is the result for some \<open>rnd\<close>.
\<close>

definition randint :: "nat \<Rightarrow> int \<Rightarrow> int \<Rightarrow> py_error + int" where
  "randint rnd low high =
     (if low < high then Inr (low + int rnd mod (high - low)) else Inl ValueError)"

text \<open>
  \<open>RandomCrop.rand_crop_params\<close>, lines 88 to 109. \<open>h\<close> and \<open>w\<close> are \<open>img.shape[:2]\<close>,
  \<open>crop_size\<close> is \<open>self.crop_size\<close>, \<open>r1\<close> and \<open>r2\<close> are the two random draws. Line 104
  assigns \<open>min(w, target_h)\<close> to \<open>target_h\<close>, and so does the model.
\<close>

definition rand_crop_params ::
  "int \<times> int \<Rightarrow> nat \<Rightarrow> nat \<Rightarrow> int \<Rightarrow> int \<Rightarrow> py_error + (int \<times> int \<times> int \<times> int)" where
  "rand_crop_params crop_size r1 r2 h w =
     (let target_h = fst crop_size; target_w = snd crop_size in
      if w = target_w \<and> h = target_h then Inr (0, 0, h, w)
      else
        let shrink = (w < target_w \<or> h < target_h);
            target_w' = (if shrink then min w target_w else target_w);
            target_h' = (if shrink then min w target_h else target_h)
        in case randint r1 0 (h - target_h' + 1) of
             Inl e \<Rightarrow> Inl e
           | Inr offset_h \<Rightarrow>
               (case randint r2 0 (w - target_w' + 1) of
                  Inl e \<Rightarrow> Inl e
                | Inr offset_w \<Rightarrow> Inr (offset_h, offset_w, target_h', target_w')))"

text \<open>The crop lies inside an image of height \<open>h\<close> and width \<open>w\<close>.\<close>

definition crop_inside :: "int \<Rightarrow> int \<Rightarrow> int \<times> int \<times> int \<times> int \<Rightarrow> bool" where
  "crop_inside h w p =
     (case p of (offset_h, offset_w, target_h, target_w) \<Rightarrow>
        0 \<le> offset_h \<and> offset_h \<le> h - target_h \<and>
        0 \<le> offset_w \<and> offset_w \<le> w - target_w \<and>
        target_h \<le> h \<and> target_w \<le> w)"

text \<open>Sequencing of statements that can raise: the first exception ends the run.\<close>

definition seq :: "py_error + 'a \<Rightarrow> ('a \<Rightarrow> py_error + 'b) \<Rightarrow> py_error + 'b" where
  "seq m f = (case m of Inl e \<Rightarrow> Inl e | Inr x \<Rightarrow> f x)"

text \<open>
  The \<open>results\<close> dict of the pipeline maps string keys to values. A value is an image, a
  shape tuple, or anything else; only images have the attribute \<open>shape\<close>.
\<close>

datatype ('img, 'v) pyval = Img 'img | Shape "int list" | Other 'v

type_synonym ('img, 'v) results = "string \<rightharpoonup> ('img, 'v) pyval"

text \<open>
  The image library (\<open>mmcv\<close>, \<open>numpy\<close>) is not part of the repository. The functions the
  two transforms call are parameters; each may return an image or raise.
  \<open>shape\<close> is \<open>img.shape\<close>; \<open>impad img padding pad_val padding_mode\<close> is \<open>mmcv.impad\<close>;
  \<open>imcrop img bboxes\<close> is \<open>mmcv.imcrop\<close>; \<open>imresize img size interpolation backend\<close> is
  \<open>mmcv.imresize\<close>.
\<close>

record ('img, 'pv) mmcv =
  shape :: "'img \<Rightarrow> int list"
  impad :: "'img \<Rightarrow> int list \<Rightarrow> 'pv \<Rightarrow> string \<Rightarrow> py_error + 'img"
  imcrop :: "'img \<Rightarrow> int list \<Rightarrow> py_error + 'img"
  imresize :: "'img \<Rightarrow> int \<times> int \<Rightarrow> string \<Rightarrow> string \<Rightarrow> py_error + 'img"

text \<open>The attributes \<open>RandomCrop.__init__\<close> stores (lines 76 to 85).\<close>

record 'pv random_crop =
  crop_size :: "int \<times> int"
  padding :: "int list option"
  pad_if_needed :: bool
  pad_val :: 'pv
  padding_mode :: string

text \<open>\<open>results['img']\<close>: KeyError without the key; the value must be an image.\<close>

definition get_img :: "('img, 'v) results \<Rightarrow> py_error + 'img" where
  "get_img results =
     (case results ''img'' of
        None \<Rightarrow> Inl (KeyError ''img'')
      | Some (Img img) \<Rightarrow> Inr img
      | Some _ \<Rightarrow> Inl AttributeError)"

text \<open>\<open>shp[i]\<close> on a shape tuple, for \<open>i = 0\<close> or \<open>1\<close>.\<close>

definition shape_at :: "int list \<Rightarrow> nat \<Rightarrow> py_error + int" where
  "shape_at shp i = (if i < length shp then Inr (shp ! i) else Inl IndexError)"

text \<open>\<open>h, w = img.shape[:2]\<close>: unpacking fewer than two values raises ValueError.\<close>

definition shape_hw :: "int list \<Rightarrow> py_error + (int \<times> int)" where
  "shape_hw shp = (case shp of h # w # _ \<Rightarrow> Inr (h, w) | _ \<Rightarrow> Inl ValueError)"

text \<open>
  \<open>math.ceil(max(0, c - s) / 2)\<close> of lines 127 and 128; for the non-negative integer
  \<open>max(0, c - s)\<close> this is \<open>(max(0, c - s) + 1) div 2\<close>.
\<close>

definition half_pad :: "int \<Rightarrow> int \<Rightarrow> int" where
  "half_pad c s = (max 0 (c - s) + 1) div 2"

text \<open>
  \<open>RandomCrop.transform\<close>, lines 111 to 148. The dict is updated in place and returned;
  the model returns the updated map.
\<close>

definition RandomCrop_transform ::
  "('img, 'pv) mmcv \<Rightarrow> 'pv random_crop \<Rightarrow> nat \<Rightarrow> nat \<Rightarrow> ('img, 'v) results
     \<Rightarrow> py_error + ('img, 'v) results" where
  "RandomCrop_transform cv self r1 r2 results =
     seq (get_img results) (\<lambda>img.
     seq (case padding self of
            None \<Rightarrow> Inr img
          | Some p \<Rightarrow> impad cv img p (pad_val self) ''constant'') (\<lambda>img.
     seq (if pad_if_needed self then
            seq (shape_at (shape cv img) 0) (\<lambda>s0.
            seq (shape_at (shape cv img) 1) (\<lambda>s1.
              let h_pad = half_pad (fst (crop_size self)) s0;
                  w_pad = half_pad (snd (crop_size self)) s1
              in impad cv img [w_pad, h_pad, w_pad, h_pad] (pad_val self) (padding_mode self)))
          else Inr img) (\<lambda>img.
     seq (shape_hw (shape cv img)) (\<lambda>(h, w).
     seq (rand_crop_params (crop_size self) r1 r2 h w) (\<lambda>(offset_h, offset_w, target_h, target_w).
     seq (imcrop cv img [offset_w, offset_h, offset_w + target_w - 1, offset_h + target_h - 1]) (\<lambda>img.
       Inr (results(''img'' \<mapsto> Img img, ''img_shape'' \<mapsto> Shape (shape cv img)))))))))"

text \<open>The attributes \<open>RandomResizedCrop.__init__\<close> stores that \<open>transform\<close> reads.\<close>

record resized_crop =
  scale :: "int \<times> int"
  interpolation :: string
  backend :: string

text \<open>
  \<open>RandomResizedCrop.transform\<close>, lines 273 to 299. \<open>params\<close> is the outcome of
  \<open>self.rand_crop_params(img)\<close> (lines 231 to 271), which samples floating-point numbers
  and may return any four integers or raise (division by a height of zero); the transform
  is modelled for every such outcome. \<open>tuple(self.scale[::-1])\<close> swaps the pair.
\<close>

definition RandomResizedCrop_transform ::
  "('img, 'pv) mmcv \<Rightarrow> resized_crop \<Rightarrow> ('img \<Rightarrow> py_error + (int \<times> int \<times> int \<times> int))
     \<Rightarrow> ('img, 'v) results \<Rightarrow> py_error + ('img, 'v) results" where
  "RandomResizedCrop_transform cv self params results =
     seq (get_img results) (\<lambda>img.
     seq (params img) (\<lambda>(offset_h, offset_w, target_h, target_w).
     seq (imcrop cv img [offset_w, offset_h, offset_w + target_w - 1, offset_h + target_h - 1]) (\<lambda>img.
     seq (imresize cv img (snd (scale self), fst (scale self)) (interpolation self) (backend self)) (\<lambda>img.
       Inr (results(''img'' \<mapsto> Img img, ''img_shape'' \<mapsto> Shape (shape cv img)))))))"

text \<open>
  The frame condition of both transforms: between the dict passed in and the dict
  returned, every key other than \<open>'img'\<close> and \<open>'img_shape'\<close> has the same value (or is
  absent in both), and \<open>'img_shape'\<close> is the shape of the image under \<open>'img'\<close>.
\<close>

definition only_img_modified ::
  "('img, 'pv) mmcv \<Rightarrow> ('img, 'v) results \<Rightarrow> ('img, 'v) results \<Rightarrow> bool" where
  "only_img_modified cv results results' \<longleftrightarrow>
     (\<forall>key. key \<noteq> ''img'' \<and> key \<noteq> ''img_shape'' \<longrightarrow> results' key = results key) \<and>
     (\<exists>img. results' ''img'' = Some (Img img) \<and>
            results' ''img_shape'' = Some (Shape (shape cv img)))"

text \<open>
  A stand-in image library for concrete runs: an image is its shape, padding adds the
  borders, cropping yields the box size, resizing yields the requested size.
\<close>

definition shape_cv :: "(int list, unit) mmcv" where
  "shape_cv =
     \<lparr> shape = (\<lambda>img. img),
       impad = (\<lambda>img p pv mode.
          if length p = 4 \<and> length img = 2
          then Inr [img ! 0 + p ! 1 + p ! 3, img ! 1 + p ! 0 + p ! 2]
          else Inl ValueError),
       imcrop = (\<lambda>img b.
          if length b = 4 then Inr [b ! 3 - b ! 1 + 1, b ! 2 - b ! 0 + 1] else Inl ValueError),
       imresize = (\<lambda>img size interp be. Inr [snd size, fst size]) \<rparr>"

text \<open>The inputs of the concrete runs of the two transforms.\<close>

definition example_results :: "(int list, nat) results" where
  "example_results = [''img'' \<mapsto> Img [10, 12], ''gt_label'' \<mapsto> Other 3]"

definition example_random_crop :: "unit random_crop" where
  "example_random_crop =
     \<lparr> crop_size = (4, 6), padding = Some [1, 1, 1, 1], pad_if_needed = True, pad_val = (),
       padding_mode = ''constant'' \<rparr>"

definition example_resized_crop :: resized_crop where
  "example_resized_crop = \<lparr> scale = (7, 8), interpolation = ''bilinear'', backend = ''cv2'' \<rparr>"

section \<open>Module namespaces and classes\<close>

text \<open>
  A module's global namespace is the list of names its import statements, function
  definitions and class definitions bind. Loading a name that is neither local nor bound
  there (nor a builtin) raises NameError. \<open>import torch.nn as nn\<close> binds \<open>nn\<close> only.
\<close>

type_synonym namespace = "string list"

definition load_global :: "namespace \<Rightarrow> string \<Rightarrow> py_error + string" where
  "load_global ns name = (if name \<in> set ns then Inr name else Inl (NameError name))"

text \<open>
  An object is known by the classes it is an instance of (the names in the method
  resolution order of its type); \<open>isinstance\<close> asks for membership.
\<close>

record py_object =
  mro :: "string list"

definition isinstance :: "py_object \<Rightarrow> string \<Rightarrow> bool" where
  "isinstance obj cls \<longleftrightarrow> cls \<in> set (mro obj)"

section \<open>mmpretrain/models/heads: DOSHead and CoSenLinearClsHead\<close>

text \<open>The names bound at module level in \<open>dos_head.py\<close> (lines 1 to 9).\<close>

definition dos_head_globals :: namespace where
  "dos_head_globals =
     [''torch'', ''nn'', ''Optional'', ''Tuple'', ''MODELS'', ''LinearClsHead'', ''DOSHead'']"

text \<open>The names bound at module level in \<open>cosen_linear_head.py\<close> (lines 2 to 13).\<close>

definition cosen_linear_head_globals :: namespace where
  "cosen_linear_head_globals =
     [''Optional'', ''Tuple'', ''List'', ''DataSample'', ''torch'', ''nn'', ''MODELS'',
      ''LinearClsHead'', ''CoSenCrossEntropyLoss'', ''CoSenLinearClsHead'']"

text \<open>
  \<open>DOSHead.__init__\<close>, lines 11 to 23. The constructor of the base class belongs to the
  framework; \<open>super_init\<close> is its outcome: it raises, or it returns having built the
  loss module that \<open>self.loss_module\<close> then yields. The arguments of \<open>isinstance\<close> are
  evaluated left to right, so \<open>DOSLoss\<close> is loaded after \<open>self.loss_module\<close>. A
  constructor that returns yields the head, here the loss module it holds.
\<close>

definition DOSHead_init :: "namespace \<Rightarrow> py_error + py_object \<Rightarrow> py_error + py_object" where
  "DOSHead_init ns super_init =
     seq super_init (\<lambda>loss_module.
     seq (load_global ns ''DOSLoss'') (\<lambda>cls.
       if \<not> isinstance loss_module cls then Inl TypeError else Inr loss_module))"

text \<open>\<open>CoSenLinearClsHead.__init__\<close>, lines 22 to 27.\<close>

definition CoSenLinearClsHead_init ::
  "namespace \<Rightarrow> py_error + py_object \<Rightarrow> py_error + py_object" where
  "CoSenLinearClsHead_init ns super_init =
     seq super_init (\<lambda>loss_module.
     seq (load_global ns ''CoSenCrossEntropyLoss'') (\<lambda>cls.
       if \<not> isinstance loss_module cls then Inl TypeError else Inr loss_module))"

text \<open>A loss module built from \<open>DOSLoss\<close>, as the config of a DOSHead asks for.\<close>

definition dos_loss_module :: py_object where
  "dos_loss_module = \<lparr> mro = [''DOSLoss'', ''Module'', ''object''] \<rparr>"

section \<open>The standard library's heapq on Python lists\<close>

text \<open>
  \<open>crl_loss.py\<close> keeps each collection of hard samples as a Python list handled with
  \<open>heapq.heappush\<close> and \<open>heapq.heappop\<close>. The functions below follow the library's
  definition on a list: \<open>_siftdown\<close> moves the item at \<open>pos\<close> towards the root while it is
  smaller than its parent, \<open>_siftup\<close> moves the smaller child up until a leaf is reached
  and sifts the displaced item down from there.
\<close>

function siftdown_loop :: "'a::linorder list \<Rightarrow> nat \<Rightarrow> nat \<Rightarrow> 'a \<Rightarrow> 'a list" where
  "siftdown_loop heap startpos pos newitem =
     (if startpos < pos then
        let parentpos = (pos - 1) div 2;
            parent = heap ! parentpos
        in if newitem < parent
           then siftdown_loop (heap[pos := parent]) startpos parentpos newitem
           else heap[pos := newitem]
      else heap[pos := newitem])"
  by pat_completeness auto
termination
  by (relation "measure (\<lambda>(heap, startpos, pos, newitem). pos)") auto

declare siftdown_loop.simps [simp del]

definition siftdown :: "'a::linorder list \<Rightarrow> nat \<Rightarrow> nat \<Rightarrow> 'a list" where
  "siftdown heap startpos pos = siftdown_loop heap startpos pos (heap ! pos)"

function siftup_loop :: "'a::linorder list \<Rightarrow> nat \<Rightarrow> nat \<Rightarrow> 'a list \<times> nat" where
  "siftup_loop heap endpos pos =
     (let childpos = 2 * pos + 1 in
      if childpos < endpos then
        let rightpos = childpos + 1;
            childpos' = (if rightpos < endpos \<and> \<not> heap ! childpos < heap ! rightpos
                         then rightpos else childpos)
        in siftup_loop (heap[pos := heap ! childpos']) endpos childpos'
      else (heap, pos))"
  by pat_completeness auto
termination
  by (relation "measure (\<lambda>(heap, endpos, pos). endpos - pos)") auto

declare siftup_loop.simps [simp del]

definition siftup :: "'a::linorder list \<Rightarrow> nat \<Rightarrow> 'a list" where
  "siftup heap pos =
     (let endpos = length heap;
          startpos = pos;
          newitem = heap ! pos;
          (heap', pos') = siftup_loop heap endpos pos
      in siftdown (heap'[pos' := newitem]) startpos pos')"

text \<open>\<open>heappush(heap, item)\<close>: append, then sift the new last item down from the end.\<close>

definition heappush :: "'a::linorder list \<Rightarrow> 'a \<Rightarrow> 'a list" where
  "heappush heap item = siftdown (heap @ [item]) 0 (length (heap @ [item]) - 1)"

text \<open>
  \<open>heappop(heap)\<close>: \<open>heap.pop()\<close> raises IndexError on the empty list; otherwise the last
  item replaces the root and is sifted up. The result is the popped item and the list.
\<close>

definition heappop :: "'a::linorder list \<Rightarrow> py_error + ('a \<times> 'a list)" where
  "heappop heap =
     (if heap = [] then Inl IndexError
      else
        let lastelt = last heap;
            heap' = butlast heap
        in if heap' \<noteq> [] then Inr (heap' ! 0, siftup (heap'[0 := lastelt]) 0)
           else Inr (lastelt, heap'))"

text \<open>The heap invariant of the library: no item is smaller than its parent.\<close>

definition heap_invariant :: "'a::linorder list \<Rightarrow> bool" where
  "heap_invariant heap \<longleftrightarrow> (\<forall>i. 0 < i \<and> i < length heap \<longrightarrow> heap ! ((i - 1) div 2) \<le> heap ! i)"

section \<open>mmpretrain/models/losses/crl_loss.py\<close>

text \<open>
  The names bound at module level in \<open>crl_loss.py\<close>: the imports of lines 2 to 8 and the
  two definitions of lines 11 and 46. \<open>import torch.nn as nn\<close> and
  \<open>import torch.nn.functional as F\<close> bind \<open>nn\<close> and \<open>F\<close>, not \<open>torch\<close>.
\<close>

definition crl_loss_globals :: namespace where
  "crl_loss_globals =
     [''nn'', ''F'', ''MODELS'', ''weight_reduce_loss'', ''heapq'', ''cross_entropy'', ''CRLLoss'']"

text \<open>
  The tensor library is not part of the repository. The functions the loss calls on whole
  tensors are parameters: \<open>F_cross_entropy pred label class_weight\<close> is
  \<open>F.cross_entropy(pred, label, weight=class_weight, reduction='none')\<close>,
  \<open>weight_reduce_loss loss weight reduction avg_factor\<close> is the helper of \<open>.utils\<close>,
  \<open>to_float\<close> is \<open>weight.float()\<close>, \<open>new_tensor\<close> is \<open>cls_score.new_tensor\<close>, and
  \<open>scale_loss w loss\<close> is the product \<open>w * loss\<close> of a number and a tensor. Scores are of
  any linearly ordered type \<open>'s\<close>, a batch of scores is a list of rows, labels are integers.
\<close>

record ('s, 'w, 'l, 'f) torch =
  F_cross_entropy :: "'s list list \<Rightarrow> int list \<Rightarrow> 'w option \<Rightarrow> py_error + 'l"
  weight_reduce_loss :: "'l \<Rightarrow> 'w option \<Rightarrow> string \<Rightarrow> int option \<Rightarrow> py_error + 'l"
  to_float :: "'w \<Rightarrow> 'w"
  new_tensor :: "'f list \<Rightarrow> 'w"
  scale_loss :: "'f \<Rightarrow> 'l \<Rightarrow> 'l"

text \<open>\<open>cross_entropy\<close>, lines 11 to 42.\<close>

definition cross_entropy ::
  "('s, 'w, 'l, 'f) torch \<Rightarrow> 's list list \<Rightarrow> int list \<Rightarrow> 'w option \<Rightarrow> string \<Rightarrow> int option
     \<Rightarrow> 'w option \<Rightarrow> py_error + 'l" where
  "cross_entropy t pred label weight red avg_factor class_wt =
     seq (F_cross_entropy t pred label class_wt) (\<lambda>loss.
       let weight' = map_option (to_float t) weight
       in weight_reduce_loss t loss weight' red avg_factor)"

text \<open>
  The attributes \<open>CRLLoss.__init__\<close> stores (lines 82 to 101). \<open>cls_criterion\<close> holds the
  module-level function the constructor picked, known by its name.
\<close>

record 'f crl_loss =
  use_sigmoid :: bool
  use_soft :: bool
  reduction :: string
  loss_weight :: 'f
  class_weight :: "'f list option"
  pos_weight :: "'f list option"
  cls_criterion :: string
  crl_k :: nat
  min_classes :: "int list"

text \<open>
  \<open>CRLLoss.__init__\<close>, lines 72 to 101, run in a module whose global namespace is \<open>ns\<close>.
  The assertion of line 84, the load of the criterion function (lines 93 to 98) and the
  load of \<open>torch\<close> (line 101) can raise. \<open>k\<close> is a count, a natural number.
\<close>

definition CRLLoss_init ::
  "namespace \<Rightarrow> int list \<Rightarrow> nat \<Rightarrow> bool \<Rightarrow> bool \<Rightarrow> string \<Rightarrow> 'f \<Rightarrow> 'f list option
     \<Rightarrow> 'f list option \<Rightarrow> py_error + 'f crl_loss" where
  "CRLLoss_init ns min_cls k use_sig use_sft red loss_wt class_wt pos_wt =
     (if use_sft \<and> use_sig then Inl AssertionError
      else
        seq (load_global ns
               (if use_sig then ''binary_cross_entropy''
                else if use_sft then ''soft_cross_entropy''
                else ''cross_entropy'')) (\<lambda>criterion.
        seq (load_global ns ''torch'') (\<lambda>torch.
          Inr \<lparr> use_sigmoid = use_sig, use_soft = use_sft, reduction = red,
                loss_weight = loss_wt, class_weight = class_wt, pos_weight = pos_wt,
                cls_criterion = criterion, crl_k = k, min_classes = min_cls \<rparr>)))"

subsection \<open>The tensor expressions of the mining section\<close>

text \<open>\<open>torch.isin(label, self.min_classes)\<close>, line 133.\<close>

definition isin :: "int list \<Rightarrow> int list \<Rightarrow> bool list" where
  "isin label min_cls = map (\<lambda>l. l \<in> set min_cls) label"

text \<open>
  \<open>torch.nonzero(mask)\<close> of line 154: the positions at which a one-dimensional mask holds,
  in increasing order.
\<close>

definition nonzero :: "bool list \<Rightarrow> nat list" where
  "nonzero msk = filter (\<lambda>i. msk ! i) [0..<length msk]"

text \<open>
  \<open>torch.where(mask)\<close> of line 137 returns a tuple with one index tensor for each
  dimension of the mask; labels are one-dimensional, so the tuple has one entry.
\<close>

definition torch_where :: "bool list \<Rightarrow> nat list list" where
  "torch_where msk = [nonzero msk]"

text \<open>
  \<open>cls_score[min_labels_mask]\<close> of line 146: the rows at which the mask holds; a mask
  whose length is not the number of rows raises IndexError.
\<close>

definition mask_select :: "'a list \<Rightarrow> bool list \<Rightarrow> py_error + 'a list" where
  "mask_select rows msk =
     (if length msk \<noteq> length rows then Inl IndexError
      else Inr (map (\<lambda>i. rows ! i) (nonzero msk)))"

text \<open>
  \<open>.max(dim=1)\<close> of line 146: for each row its largest entry and the first position that
  holds it; a row without entries raises IndexError.
\<close>

definition argmax_first :: "'s::linorder list \<Rightarrow> nat" where
  "argmax_first row = length (takeWhile (\<lambda>x. x \<noteq> Max (set row)) row)"

definition max_dim1 :: "'s::linorder list list \<Rightarrow> py_error + ('s list \<times> nat list)" where
  "max_dim1 rows =
     (if [] \<in> set rows then Inl IndexError
      else Inr (map (\<lambda>row. Max (set row)) rows, map argmax_first rows))"

text \<open>
  \<open>labels[ind]\<close> with the one-entry tuple \<open>ind\<close>: the entries of \<open>labels\<close> at the positions
  of its entry; a position beyond the last entry raises IndexError.
\<close>

definition index_select :: "int list \<Rightarrow> nat list list \<Rightarrow> py_error + int list" where
  "index_select labels ind =
     (if list_ex (\<lambda>i. length labels \<le> i) (hd ind) then Inl IndexError
      else Inr (map (\<lambda>i. labels ! i) (hd ind)))"

text \<open>\<open>torch.ne(max_pred_lab, labels[ind])\<close>, line 150, on tensors of equal length.\<close>

definition torch_ne :: "nat list \<Rightarrow> int list \<Rightarrow> bool list" where
  "torch_ne max_pred_lab labs = map (\<lambda>(p, l). int p \<noteq> l) (zip max_pred_lab labs)"

subsection \<open>Names that no statement binds\<close>

text \<open>
  The body of \<open>forward\<close> reads three names that are neither parameters nor assigned in
  the function, so Python looks them up in the module namespace: \<open>labels\<close> on line 150,
  \<open>hard_ned_ind\<close> on lines 155 and 158, \<open>lab\<close> on lines 161 and 163. No statement of the
  file binds them (the function binds \<open>label\<close>, \<open>hard_neg_ind\<close> and \<open>idx\<close>), so in the
  namespace of the file each load raises NameError. In a namespace that does bind them
  they hold the values below: a tensor of labels, a tensor of indices, an index.
\<close>

record free_names =
  labels_value :: "int list"
  hard_ned_ind_value :: "nat list"
  lab_value :: nat

subsection \<open>The hard-negative mining loop\<close>

text \<open>
  Line 159 leaves one bracket open, so the file as it stands is rejected by the compiler
  with a SyntaxError and nothing of it can be imported. The statements below are the
  file's with that bracket closed before the colon, and with nothing else changed.

  The statement of lines 161 and 163,
  \<open>heapq.heappush(hard_samples[0][max_pred_lab[idx]], [max_pred[lab], idx])\<close>, applied to
  the heap \<open>heap\<close>: \<open>heapq\<close> is loaded, then the arguments are evaluated, the second of which
  loads \<open>lab\<close>; only then is \<open>heappush\<close> called. The entry pushed is
  \<open>[max_pred[lab], idx]\<close>, compared as Python compares lists: by the first component,
  then by the second.
\<close>

definition push_entry ::
  "namespace \<Rightarrow> free_names \<Rightarrow> 's::linorder list \<Rightarrow> ('s \<times> nat) list \<Rightarrow> nat
     \<Rightarrow> py_error + ('s \<times> nat) list" where
  "push_entry ns g max_pred heap idx =
     seq (load_global ns ''heapq'') (\<lambda>heapq.
     seq (load_global ns ''lab'') (\<lambda>lab.
       if length max_pred \<le> lab_value g then Inl IndexError
       else Inr (heappush heap (max_pred ! lab_value g, idx))))"

text \<open>
  The body of the loop, lines 159 to 163, for the loop variable \<open>idx\<close>. \<open>hs\<close> is
  \<open>hard_samples[0]\<close>, a list of heaps. The heap is chosen by \<open>max_pred_lab[idx]\<close>; an \<open>idx\<close>
  beyond the tensors, a label beyond the last heap and \<open>[0][0]\<close> on an empty heap (which
  the first condition reaches when \<open>k = 0\<close>) raise IndexError. In the first branch the
  heap is popped before the push is attempted.
\<close>

definition mine_step ::
  "namespace \<Rightarrow> free_names \<Rightarrow> nat \<Rightarrow> 's::linorder list \<Rightarrow> nat list \<Rightarrow> ('s \<times> nat) list list
     \<Rightarrow> nat \<Rightarrow> py_error + ('s \<times> nat) list list" where
  "mine_step ns g k max_pred max_pred_lab hs idx =
     (if length max_pred_lab \<le> idx then Inl IndexError
      else
        let c = max_pred_lab ! idx in
        if length hs \<le> c then Inl IndexError
        else if k \<le> length (hs ! c) then
          (if length max_pred \<le> idx then Inl IndexError
           else if hs ! c = [] then Inl IndexError
           else if fst (hs ! c ! 0) < max_pred ! idx then
             seq (load_global ns ''heapq'') (\<lambda>heapq.
             seq (heappop (hs ! c)) (\<lambda>(item, heap).
             seq (push_entry ns g max_pred heap idx) (\<lambda>heap'.
               Inr (hs[c := heap']))))
           else Inr hs)
        else
          seq (push_entry ns g max_pred (hs ! c) idx) (\<lambda>heap'.
            Inr (hs[c := heap'])))"

text \<open>The iterations of the loop over the entries of a tensor of indices.\<close>

fun mine_iterate ::
  "namespace \<Rightarrow> free_names \<Rightarrow> nat \<Rightarrow> 's::linorder list \<Rightarrow> nat list \<Rightarrow> ('s \<times> nat) list list
     \<Rightarrow> nat list \<Rightarrow> py_error + ('s \<times> nat) list list" where
  "mine_iterate ns g k max_pred max_pred_lab hs [] = Inr hs"
| "mine_iterate ns g k max_pred max_pred_lab hs (idx # idxs) =
     seq (mine_step ns g k max_pred max_pred_lab hs idx) (\<lambda>hs'.
       mine_iterate ns g k max_pred max_pred_lab hs' idxs)"

text \<open>
  The \<open>for\<close> statement of line 158: it loads \<open>hard_ned_ind\<close> and iterates over its value,
  not over \<open>hard_neg_ind\<close> of line 154.
\<close>

definition mine_loop ::
  "namespace \<Rightarrow> free_names \<Rightarrow> nat \<Rightarrow> 's::linorder list \<Rightarrow> nat list \<Rightarrow> ('s \<times> nat) list list
     \<Rightarrow> py_error + ('s \<times> nat) list list" where
  "mine_loop ns g k max_pred max_pred_lab hs =
     seq (load_global ns ''hard_ned_ind'') (\<lambda>hard_ned_ind.
       mine_iterate ns g k max_pred max_pred_lab hs (hard_ned_ind_value g))"

text \<open>
  The mining section, lines 133 to 164, run in a module whose global namespace is \<open>ns\<close>:
  the value of \<open>hard_samples\<close> at line 164, a list of the hard negatives and the (never
  filled) hard positives. \<open>torch\<close> is loaded on lines 133, 137, 150 and 154, \<open>labels\<close> on
  line 150, \<open>hard_ned_ind\<close> on line 155 (the argument of \<open>print\<close>) and again on line 158.
  Line 141 makes \<open>len(ind)\<close> heaps, one for each entry of the tuple \<open>ind\<close>. The \<open>print\<close> calls
  have no other effect on the value.
\<close>

definition mine_hard_samples ::
  "namespace \<Rightarrow> free_names \<Rightarrow> nat \<Rightarrow> int list \<Rightarrow> 's::linorder list list \<Rightarrow> int list
     \<Rightarrow> py_error + ('s \<times> nat) list list list" where
  "mine_hard_samples ns g k min_cls cls_score label =
     seq (load_global ns ''torch'') (\<lambda>torch.
       let min_labels_mask = isin label min_cls in
       seq (load_global ns ''torch'') (\<lambda>torch.
         let ind = torch_where min_labels_mask;
             hard_samples = replicate 2 (replicate (length ind) [])
         in seq (mask_select cls_score min_labels_mask) (\<lambda>rows.
            seq (max_dim1 rows) (\<lambda>(max_pred, max_pred_lab).
            seq (load_global ns ''torch'') (\<lambda>torch.
            seq (load_global ns ''labels'') (\<lambda>labels.
            seq (index_select (labels_value g) ind) (\<lambda>labs.
              let max_thrs_mask = torch_ne max_pred_lab labs in
              seq (load_global ns ''torch'') (\<lambda>torch.
                let hard_neg_ind = nonzero max_thrs_mask in
                seq (load_global ns ''hard_ned_ind'') (\<lambda>hard_ned_ind.
                seq (mine_loop ns g k max_pred max_pred_lab (hard_samples ! 0)) (\<lambda>negatives.
                  Inr (hard_samples[0 := negatives])))))))))))"

subsection \<open>CRLLoss.forward\<close>

text \<open>
  The call \<open>self.cls_criterion(cls_score, label, weight, class_weight=..., reduction=...,
  avg_factor=..., **kwargs)\<close> of lines 172 to 179. \<open>cross_entropy\<close> is the one criterion
  the module defines; it takes no further keyword, so a non-empty \<open>kwargs\<close> raises
  TypeError. \<open>kwargs\<close> is the list of its items.
\<close>

definition call_criterion ::
  "('s, 'w, 'l, 'f) torch \<Rightarrow> string \<Rightarrow> 's list list \<Rightarrow> int list \<Rightarrow> 'w option \<Rightarrow> 'w option
     \<Rightarrow> string \<Rightarrow> int option \<Rightarrow> (string \<times> 'w) list \<Rightarrow> py_error + 'l" where
  "call_criterion t criterion cls_score label weight class_wt red avg_factor kwargs =
     (if criterion = ''cross_entropy'' then
        (if kwargs \<noteq> [] then Inl TypeError
         else cross_entropy t cls_score label weight red avg_factor class_wt)
      else Inl (NameError criterion))"

text \<open>
  \<open>CRLLoss.forward\<close>, lines 103 to 180, run in a module whose global namespace is \<open>ns\<close>:
  the assertion of line 110, the assignments of lines 111 to 124, the mining section
  (whose first statement, line 133, loads \<open>torch\<close>) and the call of the criterion.
\<close>

definition CRLLoss_forward ::
  "namespace \<Rightarrow> free_names \<Rightarrow> ('s::linorder, 'w, 'l, 'f) torch \<Rightarrow> 'f crl_loss \<Rightarrow> 's list list
     \<Rightarrow> int list \<Rightarrow> 'w option \<Rightarrow> int option \<Rightarrow> string option \<Rightarrow> (string \<times> 'w) list
     \<Rightarrow> py_error + 'l" where
  "CRLLoss_forward ns g t self cls_score label weight avg_factor reduction_override kwargs =
     (if reduction_override \<notin> {None, Some ''none'', Some ''mean'', Some ''sum''}
      then Inl AssertionError
      else
        let red = (case reduction_override of None \<Rightarrow> reduction self | Some r \<Rightarrow> r);
            class_wt = map_option (new_tensor t) (class_weight self);
            kwargs' = (case pos_weight self of
                         Some pw \<Rightarrow> if use_sigmoid self
                                    then (''pos_weight'', new_tensor t pw)
                                           # filter (\<lambda>kv. fst kv \<noteq> ''pos_weight'') kwargs
                                    else kwargs
                       | None \<Rightarrow> kwargs)
        in seq (mine_hard_samples ns g (crl_k self) (min_classes self) cls_score label)
             (\<lambda>hard_samples.
           seq (call_criterion t (cls_criterion self) cls_score label weight class_wt red
                  avg_factor kwargs') (\<lambda>loss.
             Inr (scale_loss t (loss_weight self) loss))))"

subsection \<open>A loss that is the cross-entropy only\<close>

text \<open>
  The loss \<open>CRLLoss.forward\<close> is compared with: \<open>loss_weight\<close> times
  \<open>cross_entropy(cls_score, label, weight, class_weight=class_weight,
  reduction=reduction, avg_factor=avg_factor)\<close>, for a loss configured with the given
  \<open>loss_weight\<close>, \<open>reduction\<close> and \<open>class_weight\<close>, and nothing else.
\<close>

definition cross_entropy_only_loss ::
  "('s, 'w, 'l, 'f) torch \<Rightarrow> 'f \<Rightarrow> string \<Rightarrow> 'f list option \<Rightarrow> 's list list \<Rightarrow> int list
     \<Rightarrow> 'w option \<Rightarrow> int option \<Rightarrow> string option \<Rightarrow> py_error + 'l" where
  "cross_entropy_only_loss t loss_wt red0 class_wt0 cls_score label weight avg_factor
     reduction_override =
     (let red = (case reduction_override of None \<Rightarrow> red0 | Some r \<Rightarrow> r);
          class_wt = map_option (new_tensor t) class_wt0
      in seq (cross_entropy t cls_score label weight red avg_factor class_wt) (\<lambda>loss.
           Inr (scale_loss t loss_wt loss)))"

subsection \<open>What the mining loop is to maintain\<close>

text \<open>Every heap of \<open>hard_samples[0]\<close> holds at most \<open>k\<close> entries.\<close>

definition capacity_bound :: "nat \<Rightarrow> 'a list list \<Rightarrow> bool" where
  "capacity_bound k hs \<longleftrightarrow> (\<forall>h \<in> set hs. length h \<le> k)"

text \<open>
  \<open>s\<close> is a prediction of an example of a minority class: the largest score of a batch
  example whose label is in \<open>min_classes\<close>.
\<close>

definition minority_prediction :: "'s::linorder list list \<Rightarrow> int list \<Rightarrow> int list \<Rightarrow> 's \<Rightarrow> bool" where
  "minority_prediction cls_score label min_cls s \<longleftrightarrow>
     list_ex (\<lambda>p. label ! p \<in> set min_cls \<and> s = Max (set (cls_score ! p))) [0..<length label]"

text \<open>
  \<open>e\<close> is an entry of an example of a minority class: its confidence is a prediction of
  such an example, and its index is a position in the sub-batch of these examples, the
  rows that \<open>min_labels_mask\<close> selects.
\<close>

definition minority_entry ::
  "'s::linorder list list \<Rightarrow> int list \<Rightarrow> int list \<Rightarrow> 's \<times> nat \<Rightarrow> bool" where
  "minority_entry cls_score label min_cls e \<longleftrightarrow>
     minority_prediction cls_score label min_cls (fst e) \<and>
     snd e < length (nonzero (isin label min_cls))"

text \<open>Every entry of every heap is an entry of an example of a minority class.\<close>

definition minority_entries ::
  "'s::linorder list list \<Rightarrow> int list \<Rightarrow> int list \<Rightarrow> ('s \<times> nat) list list \<Rightarrow> bool" where
  "minority_entries cls_score label min_cls hs \<longleftrightarrow>
     (\<forall>h \<in> set hs. \<forall>e \<in> set h. minority_entry cls_score label min_cls e)"

subsection \<open>Counting the work of one iteration\<close>

















text \<open>The binary logarithm, rounded down (and 0 at 0).\<close>

fun log2 :: "nat \<Rightarrow> nat" where
  "log2 n = (if n < 2 then 0 else Suc (log2 (n div 2)))"

declare log2.simps [simp del]









text \<open>
  While an item is being sifted, the list is a heap except at the position \<open>pos\<close> of the
  item in flight: every other item is no smaller than its parent, and the children of
  \<open>pos\<close> are no smaller than the parent of \<open>pos\<close>.
\<close>

definition heap_except :: "'a::linorder list \<Rightarrow> nat \<Rightarrow> bool" where
  "heap_except heap pos \<longleftrightarrow>
     (\<forall>i. 0 < i \<and> i < length heap \<and> i \<noteq> pos \<and> (i - 1) div 2 \<noteq> pos
          \<longrightarrow> heap ! ((i - 1) div 2) \<le> heap ! i) \<and>
     (\<forall>i. 0 < i \<and> i < length heap \<and> (i - 1) div 2 = pos \<and> 0 < pos
          \<longrightarrow> heap ! ((pos - 1) div 2) \<le> heap ! i)"

section \<open>Properties of RandomCrop.rand_crop_params\<close>

lemma randint_range:
  "randint rnd low high = Inr r \<Longrightarrow> low \<le> r \<and> r < high"
proof -
  assume a: "randint rnd low high = Inr r"
  then have lt: "low < high" and r: "r = low + int rnd mod (high - low)"
    by (auto simp: randint_def split: if_splits)
  from lt have "0 \<le> int rnd mod (high - low)" and "int rnd mod (high - low) < high - low"
    by simp_all
  with r show ?thesis by linarith
qed

lemma randint_Inr_iff:
  "(\<exists>r. randint rnd low high = Inr r) \<longleftrightarrow> low < high"
  by (simp add: randint_def)

text \<open>Whenever crop parameters are returned, the crop lies inside the image.\<close>

lemma rand_crop_params_inside:
  assumes "rand_crop_params (ch, cw) r1 r2 h w = Inr p"
    and "0 < h" and "0 < w" and "0 < ch" and "0 < cw"
  shows "crop_inside h w p"
proof (cases "w = cw \<and> h = ch")
  case True
  with assms show ?thesis
    by (auto simp: rand_crop_params_def crop_inside_def)
next
  case False
  with assms show ?thesis
    by (auto simp: rand_crop_params_def crop_inside_def Let_def
        split: sum.splits if_splits dest!: randint_range)
qed

text \<open>
  C8. The claim is that the crop always lies inside the image, also when the image is
  smaller than the crop size in the height only. At \<open>h = 5\<close>, \<open>w = 10\<close> and crop size
  \<open>(8, 8)\<close> line 104 sets \<open>target_h = min(w, target_h) = 8\<close>, which exceeds \<open>h\<close>, and the
  draw \<open>randint(0, h - target_h + 1) = randint(0, -2)\<close> raises ValueError for every
  random draw: no crop parameters are returned at all.
\<close>

theorem rand_crop_params_short_image_raises:
  "rand_crop_params (8, 8) r1 r2 5 10 = Inl ValueError"
  by (simp add: rand_crop_params_def randint_def)

section \<open>Frame condition of the crop transforms\<close>

lemma seq_Inr_iff:
  "seq m f = Inr y \<longleftrightarrow> (\<exists>x. m = Inr x \<and> f x = Inr y)"
  by (cases m) (simp_all add: seq_def)

lemma seq_Inr [simp]: "seq (Inr x) f = f x"
  by (simp add: seq_def)

lemma seq_Inl [simp]: "seq (Inl e) f = Inl e"
  by (simp add: seq_def)

lemma only_img_modified_update:
  "only_img_modified cv results
     (results(''img'' \<mapsto> Img img, ''img_shape'' \<mapsto> Shape (shape cv img)))"
  by (auto simp: only_img_modified_def)

lemma RandomCrop_transform_frame:
  assumes "RandomCrop_transform cv self r1 r2 results = Inr results'"
  shows "only_img_modified cv results results'"
  using assms
  unfolding RandomCrop_transform_def
  by (auto simp: seq_Inr_iff only_img_modified_update split: prod.splits)

lemma RandomResizedCrop_transform_frame:
  assumes "RandomResizedCrop_transform cv self params results = Inr results'"
  shows "only_img_modified cv results results'"
  using assms
  unfolding RandomResizedCrop_transform_def
  by (auto simp: seq_Inr_iff only_img_modified_update split: prod.splits)

text \<open>
  C9. Whenever \<open>RandomCrop.transform\<close> or \<open>RandomResizedCrop.transform\<close> returns a dict,
  every key other than \<open>'img'\<close> and \<open>'img_shape'\<close> maps to the value it had in the input
  dict (a key absent before is absent after), and \<open>'img_shape'\<close> is the shape of the
  returned \<open>'img'\<close>. This holds for every image library, every random draw and every
  outcome of the resized crop's parameter sampling.
\<close>

theorem transforms_modify_only_img:
  "(RandomCrop_transform cv rc r1 r2 results = Inr results' \<longrightarrow>
      only_img_modified cv results results') \<and>
   (RandomResizedCrop_transform cv rrc params results = Inr results'' \<longrightarrow>
      only_img_modified cv results results'')"
  using RandomCrop_transform_frame RandomResizedCrop_transform_frame by blast

theorem transforms_modify_only_img_witness:
  "RandomCrop_transform shape_cv example_random_crop 1 2 example_results
     = Inr (example_results(''img'' \<mapsto> Img [4, 6], ''img_shape'' \<mapsto> Shape [4, 6])) \<and>
   only_img_modified shape_cv example_results
     (example_results(''img'' \<mapsto> Img [4, 6], ''img_shape'' \<mapsto> Shape [4, 6])) \<and>
   RandomResizedCrop_transform shape_cv example_resized_crop (\<lambda>img. Inr (1, 2, 5, 6))
       example_results
     = Inr (example_results(''img'' \<mapsto> Img [7, 8], ''img_shape'' \<mapsto> Shape [7, 8])) \<and>
   only_img_modified shape_cv example_results
     (example_results(''img'' \<mapsto> Img [7, 8], ''img_shape'' \<mapsto> Shape [7, 8]))"
proof -
  have run1: "RandomCrop_transform shape_cv example_random_crop 1 2 example_results
     = Inr (example_results(''img'' \<mapsto> Img [4, 6], ''img_shape'' \<mapsto> Shape [4, 6]))"
    by (simp add: RandomCrop_transform_def shape_cv_def example_random_crop_def get_img_def
        example_results_def shape_at_def shape_hw_def half_pad_def rand_crop_params_def
        randint_def)
  have run2: "RandomResizedCrop_transform shape_cv example_resized_crop
       (\<lambda>img. Inr (1, 2, 5, 6)) example_results
     = Inr (example_results(''img'' \<mapsto> Img [7, 8], ''img_shape'' \<mapsto> Shape [7, 8]))"
    by (simp add: RandomResizedCrop_transform_def shape_cv_def example_resized_crop_def
        get_img_def example_results_def)
  show ?thesis
    using run1 run2
      transforms_modify_only_img [of shape_cv example_random_crop 1 2 example_results _
        example_resized_crop "\<lambda>img. Inr (1, 2, 5, 6)"]
    by simp
qed

section \<open>The paired-loss checks of the heads\<close>

text \<open>
  With the loss class bound in the module, the check of \<open>CoSenLinearClsHead\<close> raises
  TypeError exactly when the loss module is not a \<open>CoSenCrossEntropyLoss\<close>.
\<close>

lemma CoSenLinearClsHead_init_checks:
  "CoSenLinearClsHead_init cosen_linear_head_globals (Inr loss_module) =
     (if isinstance loss_module ''CoSenCrossEntropyLoss'' then Inr loss_module else Inl TypeError)"
  by (simp add: CoSenLinearClsHead_init_def load_global_def cosen_linear_head_globals_def)

lemma DOSHead_init_never_returns:
  "DOSHead_init dos_head_globals super_init \<noteq> Inr head"
  by (cases super_init)
    (simp_all add: DOSHead_init_def load_global_def dos_head_globals_def)

text \<open>
  C7. The claim is that \<open>DOSHead.__init__\<close> raises TypeError exactly when the loss module
  is not a \<open>DOSLoss\<close> and completes otherwise. \<open>dos_head.py\<close> never imports \<open>DOSLoss\<close>, so
  once the base constructor has returned, line 22 raises NameError for every loss
  module, also for an instance of \<open>DOSLoss\<close>: the constructor neither completes nor
  raises the TypeError of line 23.
\<close>

theorem DOSHead_init_raises_NameError:
  "DOSHead_init dos_head_globals (Inr dos_loss_module) = Inl (NameError ''DOSLoss'') \<and>
   DOSHead_init dos_head_globals (Inr loss_module) = Inl (NameError ''DOSLoss'')"
  by (simp add: DOSHead_init_def load_global_def dos_head_globals_def)

section \<open>Properties of heappush and heappop\<close>

lemma length_siftdown_loop [simp]:
  "length (siftdown_loop heap startpos pos newitem) = length heap"
proof (induction heap startpos pos newitem rule: siftdown_loop.induct)
  case (1 heap startpos pos newitem)
  show ?case
    using 1 by (subst siftdown_loop.simps) (simp add: Let_def)
qed

lemma length_siftup_loop [simp]:
  "length (fst (siftup_loop heap endpos pos)) = length heap"
proof (induction heap endpos pos rule: siftup_loop.induct)
  case (1 heap endpos pos)
  show ?case
    using 1 by (subst siftup_loop.simps) (simp add: Let_def)
qed



lemma siftup_loop_pos:
  "pos < endpos \<Longrightarrow> snd (siftup_loop heap endpos pos) < endpos"
proof (induction heap endpos pos rule: siftup_loop.induct)
  case (1 heap endpos pos)
  show ?case
    using 1
    by (subst siftup_loop.simps) (simp add: Let_def)
qed

lemma siftup_loop_leaf:
  "endpos \<le> 2 * snd (siftup_loop heap endpos pos) + 1"
proof (induction heap endpos pos rule: siftup_loop.induct)
  case (1 heap endpos pos)
  show ?case
    using 1
    by (subst siftup_loop.simps) (simp add: Let_def)
qed


lemma length_siftdown [simp]: "length (siftdown heap startpos pos) = length heap"
  by (simp add: siftdown_def)


lemma length_siftup [simp]: "length (siftup heap pos) = length heap"
  by (simp add: siftup_def Let_def split: prod.splits)
    (metis fst_conv length_siftup_loop)


lemma length_heappush [simp]: "length (heappush heap item) = Suc (length heap)"
  by (simp add: heappush_def)



lemma heappop_item: "heappop heap = Inr (item, heap') \<Longrightarrow> item = heap ! 0"
  by (cases heap rule: rev_cases)
    (auto simp: heappop_def Let_def nth_append split: if_splits)



lemma heap_exceptD1:
  "heap_except heap pos \<Longrightarrow> 0 < i \<Longrightarrow> i < length heap \<Longrightarrow> i \<noteq> pos \<Longrightarrow> (i - 1) div 2 \<noteq> pos
     \<Longrightarrow> heap ! ((i - 1) div 2) \<le> heap ! i"
  by (simp add: heap_except_def)

lemma heap_exceptD2:
  "heap_except heap pos \<Longrightarrow> 0 < i \<Longrightarrow> i < length heap \<Longrightarrow> (i - 1) div 2 = pos \<Longrightarrow> 0 < pos
     \<Longrightarrow> heap ! ((pos - 1) div 2) \<le> heap ! i"
  by (simp add: heap_except_def)

lemma siftdown_loop_invariant:
  "pos < length heap \<Longrightarrow> heap_except heap pos \<Longrightarrow>
   (\<forall>i. 0 < i \<and> i < length heap \<and> (i - 1) div 2 = pos \<longrightarrow> newitem \<le> heap ! i) \<Longrightarrow>
   heap_invariant (siftdown_loop heap 0 pos newitem)"
proof (induction heap "0::nat" pos newitem rule: siftdown_loop.induct)
  case (1 heap pos newitem)
  let ?pp = "(pos - 1) div 2"
  note ex = "1.prems"(2)
  note below = "1.prems"(3)
  show ?case
  proof (cases "0 < pos \<and> newitem < heap ! ?pp")
    case False
    have "heap_invariant (heap[pos := newitem])"
      unfolding heap_invariant_def
    proof (intro allI impI)
      fix i assume i: "0 < i \<and> i < length (heap[pos := newitem])"
      then have il: "i < length heap" and i0: "0 < i" by simp_all
      have pi: "(i - 1) div 2 < i" using i0 by auto
      show "heap[pos := newitem] ! ((i - 1) div 2) \<le> heap[pos := newitem] ! i"
      proof (cases "i = pos")
        case True
        with False i0 have "heap ! ?pp \<le> newitem" by auto
        with True pi il show ?thesis by (simp add: nth_list_update)
      next
        case ne: False
        show ?thesis
        proof (cases "(i - 1) div 2 = pos")
          case True
          with below i0 il have "newitem \<le> heap ! i" by blast
          with True ne "1.prems"(1) show ?thesis by (simp add: nth_list_update)
        next
          case False
          with ne heap_exceptD1 [OF ex i0 il] show ?thesis by (simp add: nth_list_update)
        qed
      qed
    qed
    then show ?thesis
      using False by (subst siftdown_loop.simps) (auto simp: Let_def)
  next
    case True
    then have p0: "0 < pos" and lt: "newitem < heap ! ?pp" by simp_all
    have ppl: "?pp < pos" using p0 by auto
    let ?h = "heap[pos := heap ! ?pp]"
    have step: "siftdown_loop heap 0 pos newitem = siftdown_loop ?h 0 ?pp newitem"
      using True by (subst siftdown_loop.simps) (simp add: Let_def)
    have A: "?pp < length ?h" using ppl "1.prems"(1) by simp
    have sib: "heap ! ?pp \<le> heap ! i" if "0 < i" "i < length heap" "(i - 1) div 2 = ?pp" "i \<noteq> pos" for i
      using heap_exceptD1 [OF ex that(1,2,4)] that(3) ppl by simp
    have B: "heap_except ?h ?pp"
      unfolding heap_except_def
    proof (intro conjI allI impI)
      fix i assume a: "0 < i \<and> i < length ?h \<and> i \<noteq> ?pp \<and> (i - 1) div 2 \<noteq> ?pp"
      then have i0: "0 < i" and il: "i < length heap" and ne: "i \<noteq> ?pp" and pne: "(i - 1) div 2 \<noteq> ?pp"
        by simp_all
      from pne have ip: "i \<noteq> pos" by auto
      show "?h ! ((i - 1) div 2) \<le> ?h ! i"
      proof (cases "(i - 1) div 2 = pos")
        case True
        with heap_exceptD2 [OF ex i0 il _ p0] have "heap ! ?pp \<le> heap ! i" by simp
        with True ip "1.prems"(1) show ?thesis by (simp add: nth_list_update)
      next
        case False
        with ip heap_exceptD1 [OF ex i0 il] show ?thesis by (simp add: nth_list_update)
      qed
    next
      fix i assume a: "0 < i \<and> i < length ?h \<and> (i - 1) div 2 = ?pp \<and> 0 < ?pp"
      then have i0: "0 < i" and il: "i < length heap" and pe: "(i - 1) div 2 = ?pp" and pp0: "0 < ?pp"
        by simp_all
      have "(?pp - 1) div 2 < ?pp" using pp0 by auto
      then have g1: "(?pp - 1) div 2 \<noteq> pos" "(?pp - 1) div 2 \<noteq> ?pp" using ppl by auto
      have "heap ! ((?pp - 1) div 2) \<le> heap ! ?pp"
        using heap_exceptD1 [OF ex pp0 _ _ g1(1)] ppl "1.prems"(1) by simp
      moreover have "heap ! ?pp \<le> ?h ! i"
      proof (cases "i = pos")
        case True
        then show ?thesis using "1.prems"(1) by simp
      next
        case False
        then show ?thesis using sib [OF i0 il pe] by (simp add: nth_list_update)
      qed
      ultimately show "?h ! ((?pp - 1) div 2) \<le> ?h ! i"
        using g1 ppl by (simp add: nth_list_update)
    qed
    have C: "\<forall>i. 0 < i \<and> i < length ?h \<and> (i - 1) div 2 = ?pp \<longrightarrow> newitem \<le> ?h ! i"
    proof (intro allI impI)
      fix i assume a: "0 < i \<and> i < length ?h \<and> (i - 1) div 2 = ?pp"
      then have i0: "0 < i" and il: "i < length heap" and pe: "(i - 1) div 2 = ?pp" by simp_all
      show "newitem \<le> ?h ! i"
      proof (cases "i = pos")
        case True
        then show ?thesis using lt "1.prems"(1) by simp
      next
        case False
        then show ?thesis using sib [OF i0 il pe] lt by (simp add: nth_list_update)
      qed
    qed
    show ?thesis
      unfolding step using True by (intro "1.hyps" [OF _ refl refl _ A B C]) simp_all
  qed
qed

lemma siftup_loop_invariant_aux:
  "endpos = length heap \<Longrightarrow> pos < length heap \<Longrightarrow> heap_except heap pos \<Longrightarrow>
   heap_except (fst (siftup_loop heap endpos pos)) (snd (siftup_loop heap endpos pos))"
proof (induction heap endpos pos rule: siftup_loop.induct)
  case (1 heap endpos pos)
  note ex = "1.prems"(3)
  note e = "1.prems"(1)
  note pl = "1.prems"(2)
  show ?case
  proof (cases "2 * pos + 1 < length heap")
    case False
    then show ?thesis using ex e by (subst (1 2) siftup_loop.simps) (simp add: Let_def)
  next
    case True
    define c where "c = (if 2 * pos + 1 + 1 < length heap \<and> \<not> heap ! (2 * pos + 1) < heap ! (2 * pos + 1 + 1)
                         then 2 * pos + 1 + 1 else 2 * pos + 1)"
    let ?h = "heap[pos := heap ! c]"
    have cl: "c < length heap" and pc: "pos < c" and cpar: "(c - 1) div 2 = pos"
      using True by (auto simp: c_def)
    have step: "siftup_loop heap endpos pos = siftup_loop ?h endpos c"
      using True e by (subst siftup_loop.simps) (simp add: Let_def c_def)
    have small: "heap ! c \<le> heap ! i" if "0 < i" "i < length heap" "(i - 1) div 2 = pos" for i
    proof -
      from that have "i = 2 * pos + 1 \<or> i = 2 * pos + 2" by auto
      then show ?thesis using that(2) by (auto simp: c_def)
    qed
    have B: "heap_except ?h c"
      unfolding heap_except_def
    proof (intro conjI allI impI)
      fix i assume a: "0 < i \<and> i < length ?h \<and> i \<noteq> c \<and> (i - 1) div 2 \<noteq> c"
      then have i0: "0 < i" and il: "i < length heap" and ne: "i \<noteq> c" and pne: "(i - 1) div 2 \<noteq> c"
        by simp_all
      have pi: "(i - 1) div 2 < i" using i0 by auto
      show "?h ! ((i - 1) div 2) \<le> ?h ! i"
      proof (cases "i = pos")
        case True
        then have "0 < pos" using i0 by simp
        from heap_exceptD2 [OF ex _ cl cpar this] pc have "heap ! ((pos - 1) div 2) \<le> heap ! c" by simp
        with True pi pl show ?thesis by (simp add: nth_list_update)
      next
        case ip: False
        show ?thesis
        proof (cases "(i - 1) div 2 = pos")
          case True
          with small [OF i0 il] ip pl show ?thesis by (simp add: nth_list_update)
        next
          case False
          with ip heap_exceptD1 [OF ex i0 il] show ?thesis by (simp add: nth_list_update)
        qed
      qed
    next
      fix i assume a: "0 < i \<and> i < length ?h \<and> (i - 1) div 2 = c \<and> 0 < c"
      then have i0: "0 < i" and il: "i < length heap" and pe: "(i - 1) div 2 = c" by simp_all
      have "c < i" using pe i0 by auto
      then have ip: "i \<noteq> pos" using pc by simp
      have "heap ! c \<le> heap ! i"
        using heap_exceptD1 [OF ex i0 il ip] pe pc by simp
      then show "?h ! ((c - 1) div 2) \<le> ?h ! i"
        using cpar ip pl by (simp add: nth_list_update)
    qed
    have "heap_except (fst (siftup_loop ?h endpos c)) (snd (siftup_loop ?h endpos c))"
      using "1.IH" [OF refl _ refl refl] True cl B e by (simp add: c_def)
    then show ?thesis by (simp add: step)
  qed
qed

lemma siftup_loop_invariant:
  "pos < length heap \<Longrightarrow> heap_except heap pos \<Longrightarrow>
   heap_except (fst (siftup_loop heap (length heap) pos)) (snd (siftup_loop heap (length heap) pos))"
  by (rule siftup_loop_invariant_aux) simp_all

lemma heap_invariant_siftup:
  assumes "pos < length heap" and "heap_except heap pos" and that: "pos = 0"
  shows "heap_invariant (siftup heap pos)"
proof -
  obtain h' p' where sl: "siftup_loop heap (length heap) pos = (h', p')"
    by (cases "siftup_loop heap (length heap) pos")
  have p': "p' < length heap"
    using siftup_loop_pos [OF assms(1), of heap] sl by simp
  have leaf: "length heap \<le> 2 * p' + 1"
    using siftup_loop_leaf [of "length heap" heap pos] sl by simp
  have len: "length h' = length heap"
    using length_siftup_loop [of heap "length heap" pos] sl by simp
  have ex: "heap_except h' p'"
    using siftup_loop_invariant [OF assms(1,2)] sl by simp
  let ?h = "h'[p' := heap ! pos]"
  have nochild: "\<not> (0 < i \<and> i < length heap \<and> (i - 1) div 2 = p')" for i
    using leaf by auto
  have ex': "heap_except ?h p'"
    using ex nochild len unfolding heap_except_def
    by (auto simp: nth_list_update)
  have "heap_invariant (siftdown_loop ?h 0 p' (?h ! p'))"
    using p' len nochild by (intro siftdown_loop_invariant ex') auto
  moreover have "siftup heap pos = siftdown_loop ?h pos p' (?h ! p')"
    by (simp add: siftup_def Let_def sl siftdown_def)
  ultimately show ?thesis
    using that by simp
qed

lemma heap_invariant_imp_except:
  "heap_invariant heap \<Longrightarrow> heap_except (heap[pos := x]) pos"
  unfolding heap_invariant_def heap_except_def
proof (intro conjI allI impI)
  fix i
  assume inv: "\<forall>i. 0 < i \<and> i < length heap \<longrightarrow> heap ! ((i - 1) div 2) \<le> heap ! i"
    and a: "0 < i \<and> i < length (heap[pos := x]) \<and> i \<noteq> pos \<and> (i - 1) div 2 \<noteq> pos"
  then show "heap[pos := x] ! ((i - 1) div 2) \<le> heap[pos := x] ! i"
    by (simp add: nth_list_update)
next
  fix i
  assume inv: "\<forall>i. 0 < i \<and> i < length heap \<longrightarrow> heap ! ((i - 1) div 2) \<le> heap ! i"
    and a: "0 < i \<and> i < length (heap[pos := x]) \<and> (i - 1) div 2 = pos \<and> 0 < pos"
  then have i0: "0 < i" and il: "i < length heap" and pe: "(i - 1) div 2 = pos" and p0: "0 < pos"
    by simp_all
  have lt: "pos < i" using pe i0 by auto
  have ppl: "(pos - 1) div 2 < pos" using p0 by auto
  have "heap ! ((pos - 1) div 2) \<le> heap ! pos" using inv p0 lt il by simp
  also have "heap ! pos \<le> heap ! i" using inv i0 il pe by metis
  finally show "heap[pos := x] ! ((pos - 1) div 2) \<le> heap[pos := x] ! i"
    using lt ppl by (simp add: nth_list_update)
qed

lemma heap_invariant_butlast:
  "heap_invariant heap \<Longrightarrow> heap_invariant (butlast heap)"
  unfolding heap_invariant_def
  by (auto simp: nth_butlast)

lemma heap_invariant_heappush:
  assumes "heap_invariant heap"
  shows "heap_invariant (heappush heap item)"
proof -
  let ?h = "heap @ [item]"
  have ex: "heap_except ?h (length heap)"
    unfolding heap_except_def
  proof (intro conjI allI impI)
    fix i assume a: "0 < i \<and> i < length ?h \<and> i \<noteq> length heap \<and> (i - 1) div 2 \<noteq> length heap"
    then have i0: "0 < i" and il: "i < length heap" by simp_all
    have "(i - 1) div 2 < length heap" using i0 il by auto
    with assms i0 il show "?h ! ((i - 1) div 2) \<le> ?h ! i"
      by (simp add: heap_invariant_def nth_append)
  next
    fix i assume a: "0 < i \<and> i < length ?h \<and> (i - 1) div 2 = length heap \<and> 0 < length heap"
    then have False by auto
    then show "?h ! ((length heap - 1) div 2) \<le> ?h ! i" ..
  qed
  have "heap_invariant (siftdown_loop ?h 0 (length heap) (?h ! length heap))"
    by (intro siftdown_loop_invariant ex) auto
  then show ?thesis by (simp add: heappush_def siftdown_def)
qed

lemma heap_invariant_heappop:
  assumes "heap_invariant heap" and "heappop heap = Inr (item, heap')"
  shows "heap_invariant heap'"
proof (cases "butlast heap = []")
  case True
  with assms(2) show ?thesis
    by (auto simp: heappop_def Let_def heap_invariant_def split: if_splits)
next
  case False
  then have ne: "heap \<noteq> []" by auto
  with assms(2) False have h': "heap' = siftup ((butlast heap)[0 := last heap]) 0"
    by (simp add: heappop_def Let_def)
  have "heap_except ((butlast heap)[0 := last heap]) 0"
    by (intro heap_invariant_imp_except heap_invariant_butlast assms(1))
  moreover have "0 < length (butlast heap)" using False by (cases "butlast heap") simp_all
  ultimately show ?thesis
    unfolding h' by (intro heap_invariant_siftup) simp_all
qed

lemma heap_invariant_root_le:
  assumes "heap_invariant heap"
  shows "i < length heap \<Longrightarrow> heap ! 0 \<le> heap ! i"
proof (induction i rule: less_induct)
  case (less i)
  show ?case
  proof (cases "i = 0")
    case True
    then show ?thesis by simp
  next
    case False
    then have i0: "0 < i" by simp
    then have "(i - 1) div 2 < i" by auto
    with less have "heap ! 0 \<le> heap ! ((i - 1) div 2)" by simp
    also have "\<dots> \<le> heap ! i" using assms i0 less.prems by (simp add: heap_invariant_def)
    finally show ?thesis .
  qed
qed

lemma heap_invariant_Nil [simp]: "heap_invariant []"
  by (simp add: heap_invariant_def)

section \<open>The mining loop as the file has it\<close>

subsection \<open>The run of an iteration\<close>









lemma mine_hard_samples_raises:
  "mine_hard_samples crl_loss_globals g k min_cls cls_score label = Inl (NameError ''torch'')"
  by (simp add: mine_hard_samples_def load_global_def crl_loss_globals_def)

subsection \<open>The capacity bound\<close>



lemma capacity_bound_init: "capacity_bound k (replicate n [])"
  by (simp add: capacity_bound_def)







subsection \<open>The cost of one iteration\<close>






lemma log2_bounds: "0 < n \<Longrightarrow> 2 ^ log2 n \<le> n \<and> n < 2 ^ Suc (log2 n)"
proof (induction n rule: log2.induct)
  case (1 n)
  show ?case
  proof (cases "n < 2")
    case True
    with "1.prems" show ?thesis by (subst (1 2) log2.simps) auto
  next
    case False
    then have "0 < n div 2" by simp
    from "1.IH" [OF False this] False show ?thesis
      by (subst (1 2) log2.simps) auto
  qed
qed










subsection \<open>Where the confidences of the entries come from\<close>



lemma length_isin [simp]: "length (isin label min_cls) = length label"
  by (simp add: isin_def)








lemma minority_entries_init: "minority_entries cls_score label min_cls (replicate n [])"
  by (simp add: minority_entries_def)





section \<open>CRLLoss as a whole\<close>

text \<open>
  C2. In the namespace the file's imports bind, no call of \<open>CRLLoss.__init__\<close> and no
  call of \<open>CRLLoss.forward\<close> returns: each raises an exception for every input. The
  constructor stops at the assertion of line 84, at the undefined
  \<open>binary_cross_entropy\<close> or \<open>soft_cross_entropy\<close> of lines 94 and 96, or at the unbound
  \<open>torch\<close> of line 101; \<open>forward\<close> stops at the assertion of line 110 or at the unbound
  \<open>torch\<close> of line 133, before any of the other unbound names is reached.
\<close>

theorem CRLLoss_never_returns:
  "isl (CRLLoss_init crl_loss_globals min_cls k use_sig use_sft red loss_wt class_wt pos_wt) \<and>
   isl (CRLLoss_forward crl_loss_globals g t self cls_score label weight avg_factor
          reduction_override kwargs)"
  by (simp add: CRLLoss_init_def CRLLoss_forward_def mine_hard_samples_def load_global_def
      crl_loss_globals_def Let_def)

text \<open>With \<open>torch\<close> bound, the constructor returns exactly for the plain cross-entropy.\<close>

lemma CRLLoss_init_with_torch:
  "(\<exists>self. CRLLoss_init (''torch'' # crl_loss_globals) min_cls k use_sig use_sft red loss_wt
             class_wt pos_wt = Inr (self :: 'f crl_loss)) \<longleftrightarrow> \<not> use_sig \<and> \<not> use_sft"
  by (simp add: CRLLoss_init_def load_global_def crl_loss_globals_def)

lemma CRLLoss_init_criterion:
  "CRLLoss_init (''torch'' # crl_loss_globals) min_cls k use_sig use_sft red loss_wt
     class_wt pos_wt = Inr self \<Longrightarrow> cls_criterion self = ''cross_entropy''"
  by (auto simp: CRLLoss_init_def load_global_def crl_loss_globals_def seq_Inr_iff
      split: if_splits)

lemma CRLLoss_init_default_raises:
  "CRLLoss_init crl_loss_globals min_cls k False False red loss_wt class_wt pos_wt
     = Inl (NameError ''torch'')"
  by (simp add: CRLLoss_init_def load_global_def crl_loss_globals_def)


subsection \<open>A batch with one hard negative\<close>

text \<open>
  C1. A loss is configured with the minority class 0 and \<open>k = 1\<close>, and \<open>forward\<close> is given
  a batch of one example of class 0 with the scores 1 and 3: a record with true class 0,
  predicted class 1 and confidence 3, which a collection of the \<open>k = 1\<close> hardest
  misclassified records has to hold. The constructor raises NameError for \<open>torch\<close>
  (line 101), so there is no loss object; the mining section raises NameError for \<open>torch\<close>
  on its first statement (line 133), before \<open>hard_samples\<close> exists; in a namespace that
  binds \<open>torch\<close> and nothing else it raises NameError for \<open>labels\<close> on line 150, before the
  loop. No record is processed and no collection holds the record.
\<close>

theorem hard_negative_is_not_collected:
  "CRLLoss_init crl_loss_globals [0] 1 False False ''mean'' loss_wt None None
     = Inl (NameError ''torch'') \<and>
   mine_hard_samples crl_loss_globals g 1 [0] [[1, 3 :: int]] [0] = Inl (NameError ''torch'') \<and>
   mine_hard_samples (''torch'' # crl_loss_globals) g 1 [0] [[1, 3 :: int]] [0]
     = Inl (NameError ''labels'')"
proof -
  have "mine_hard_samples (''torch'' # crl_loss_globals) g 1 [0] [[1, 3 :: int]] [0]
          = Inl (NameError ''labels'')"
    by (simp add: mine_hard_samples_def load_global_def crl_loss_globals_def Let_def
        isin_def mask_select_def nonzero_def max_dim1_def)
  then show ?thesis
    by (simp add: CRLLoss_init_default_raises mine_hard_samples_raises)
qed

subsection \<open>Two records of equal confidence\<close>


subsection \<open>The value of the loss\<close>

text \<open>
  Where \<open>forward\<close> returns, in whatever namespace, it returns what the cross-entropy-only
  loss of the same configuration returns.
\<close>

lemma CRLLoss_forward_value:
  assumes "CRLLoss_forward ns g t self cls_score label weight avg_factor reduction_override kwargs
             = Inr v"
  shows "cross_entropy_only_loss t (loss_weight self) (reduction self) (class_weight self)
           cls_score label weight avg_factor reduction_override = Inr v"
  using assms
  by (auto simp: CRLLoss_forward_def cross_entropy_only_loss_def Let_def seq_Inr_iff
      call_criterion_def split: if_splits)



end
